theory Spec2Isabelle
  imports Complex_Main "HOL-Library.Sublist"
begin

section \<open>Python values, exceptions and strings\<close>

text \<open>
  The client is asynchronous Python. Its effects are made explicit: every function takes
  the object's state and returns the new one, every exception is a value (\<open>Inl\<close> of a
  sum), and everything the network, the clock and the other tasks decide is an argument
  (the \<^emph>\<open>environment\<close> of the call). Floats are modelled as reals, log output is dropped.
\<close>

datatype json =
    JNull
  | JBool bool
  | JNum real
  | JStr string
  | JArr "json list"
  | JObj "(string \<times> json) list"

text \<open>Python truthiness of a decoded JSON value (\<open>if value:\<close>).\<close>

fun truthy :: "json \<Rightarrow> bool" where
  "truthy JNull = False"
| "truthy (JBool b) = b"
| "truthy (JNum x) = (x \<noteq> 0)"
| "truthy (JStr s) = (s \<noteq> [])"
| "truthy (JArr xs) = (xs \<noteq> [])"
| "truthy (JObj kvs) = (kvs \<noteq> [])"

text \<open>
  Exceptions, each with the text \<open>str(e)\<close> gives. \<open>CancelledError\<close> derives from
  \<open>BaseException\<close> only, so \<open>except Exception\<close> does not catch it.
\<close>

datatype exn =
    TimeoutError string
  | RuntimeError string
  | HTTPStatusError string nat string
  | JSONDecodeError string
  | ValidationError string
  | TypeError string
  | AttributeError string
  | OtherException string
  | CancelledError

fun is_Exception :: "exn \<Rightarrow> bool" where
  "is_Exception CancelledError = False"
| "is_Exception _ = True"

fun is_TimeoutError :: "exn \<Rightarrow> bool" where
  "is_TimeoutError (TimeoutError _) = True"
| "is_TimeoutError _ = False"

fun is_JSONDecodeError :: "exn \<Rightarrow> bool" where
  "is_JSONDecodeError (JSONDecodeError _) = True"
| "is_JSONDecodeError _ = False"

fun str_exn :: "exn \<Rightarrow> string" where
  "str_exn (TimeoutError m) = m"
| "str_exn (RuntimeError m) = m"
| "str_exn (HTTPStatusError m _ _) = m"
| "str_exn (JSONDecodeError m) = m"
| "str_exn (ValidationError m) = m"
| "str_exn (TypeError m) = m"
| "str_exn (AttributeError m) = m"
| "str_exn (OtherException m) = m"
| "str_exn CancelledError = []"

text \<open>Decimal rendering of integers, as an f-string does it.\<close>

definition digit_char :: "nat \<Rightarrow> char" where
  "digit_char d = ''0123456789'' ! (d mod 10)"

fun str_nat :: "nat \<Rightarrow> string" where
  "str_nat n = (if n < 10 then [digit_char n] else str_nat (n div 10) @ [digit_char n])"

declare str_nat.simps [simp del]

definition str_int :: "int \<Rightarrow> string" where
  "str_int i = (if i < 0 then CHR ''-'' # str_nat (nat (- i)) else str_nat (nat i))"

text \<open>A JSON-RPC id: \<open>Optional[int | str]\<close> is \<open>req_id option\<close>.\<close>

datatype req_id = IntId int | StrId string

fun str_req_id :: "req_id option \<Rightarrow> string" where
  "str_req_id None = ''None''"
| "str_req_id (Some (IntId i)) = str_int i"
| "str_req_id (Some (StrId s)) = s"

text \<open>\<open>str.strip()\<close>, \<open>str.rstrip("/")\<close> and \<open>str.split("/")\<close>, on code points below 256.\<close>

definition is_space :: "char \<Rightarrow> bool" where
  "is_space c = (c \<in> set [CHR 0x09, CHR 0x0A, CHR 0x0B, CHR 0x0C, CHR 0x0D, CHR 0x1C,
     CHR 0x1D, CHR 0x1E, CHR 0x1F, CHR 0x20, CHR 0x85, CHR 0xA0])"

definition strip :: "string \<Rightarrow> string" where
  "strip s = rev (dropWhile is_space (rev (dropWhile is_space s)))"

definition rstrip_slash :: "string \<Rightarrow> string" where
  "rstrip_slash s = rev (dropWhile (\<lambda>c. c = CHR ''/'') (rev s))"

fun split_on :: "char \<Rightarrow> string \<Rightarrow> string list" where
  "split_on sep [] = [[]]"
| "split_on sep (c # cs) =
     (if c = sep then [] # split_on sep cs
      else (case split_on sep cs of [] \<Rightarrow> [[c]] | p # ps \<Rightarrow> (c # p) # ps))"

text \<open>
  \<open>repr\<close> of a string, on code points below 256: the quote is \<open>"\<close> when the string
  holds \<open>'\<close> and no \<open>"\<close>, and \<open>'\<close> otherwise; the quote and the backslash are
  escaped with a backslash, tab, newline and carriage return are written \<open>\t\<close>, \<open>\n\<close>,
  \<open>\r\<close>, every other character that is not printable is written \<open>\xhh\<close>, and the
  rest is copied.
\<close>

definition hex_digit :: "nat \<Rightarrow> char" where
  "hex_digit d = ''0123456789abcdef'' ! (d mod 16)"

definition printable :: "char \<Rightarrow> bool" where
  "printable c =
     (let n = (of_char c :: nat)
      in 32 \<le> n \<and> n \<noteq> 127 \<and> (n < 128 \<or> 160 < n) \<and> n \<noteq> 173)"

definition repr_quote :: "string \<Rightarrow> char" where
  "repr_quote s = (if CHR 0x27 \<in> set s \<and> CHR 0x22 \<notin> set s then CHR 0x22 else CHR 0x27)"

definition repr_char :: "char \<Rightarrow> char \<Rightarrow> string" where
  "repr_char q c =
     (if c = q \<or> c = CHR 0x5C then [CHR 0x5C, c]
      else if c = CHR 0x09 then [CHR 0x5C, CHR ''t'']
      else if c = CHR 0x0A then [CHR 0x5C, CHR ''n'']
      else if c = CHR 0x0D then [CHR 0x5C, CHR ''r'']
      else if printable c then [c]
      else [CHR 0x5C, CHR ''x'', hex_digit (of_char c div 16), hex_digit (of_char c)])"

definition py_repr :: "string \<Rightarrow> string" where
  "py_repr s = repr_quote s # concat (map (repr_char (repr_quote s)) s) @ [repr_quote s]"

text \<open>The strings that \<open>repr\<close> copies without a change between the quotes.\<close>

definition repr_verbatim :: "string \<Rightarrow> bool" where
  "repr_verbatim s = list_all (\<lambda>c. repr_char (repr_quote s) c = [c]) s"

section \<open>Configuration and protocol messages\<close>

record MCPServerConfig =
  base_url :: string
  sse_endpoint :: string
  cfg_message_endpoint :: string
  api_key :: string
  auth_method :: string

definition sse_url :: "MCPServerConfig \<Rightarrow> string" where
  "sse_url c = base_url c @ sse_endpoint c"

definition message_url :: "MCPServerConfig \<Rightarrow> string" where
  "message_url c = base_url c @ cfg_message_endpoint c"

record MCPError =
  err_code :: int
  err_message :: string
  err_data :: "json option"

record MCPRequest =
  req_jsonrpc :: string
  req_method :: string
  req_params :: "json option"
  req_id :: "req_id option"

record MCPResponse =
  resp_jsonrpc :: string
  resp_result :: "json option"
  resp_error :: "MCPError option"
  resp_id :: "req_id option"

definition is_error :: "MCPResponse \<Rightarrow> bool" where
  "is_error r = (resp_error r \<noteq> None)"

definition tool_call :: "string \<Rightarrow> json \<Rightarrow> req_id \<Rightarrow> MCPRequest" where
  "tool_call tool_name arguments request_id =
     \<lparr>req_jsonrpc = ''2.0'', req_method = ''tools/call'',
      req_params = Some (JObj [(''name'', JStr tool_name), (''arguments'', arguments)]),
      req_id = Some request_id\<rparr>"

definition list_tools_request :: "req_id \<Rightarrow> MCPRequest" where
  "list_tools_request request_id =
     \<lparr>req_jsonrpc = ''2.0'', req_method = ''tools/list'', req_params = None,
      req_id = Some request_id\<rparr>"

definition initialize_request :: "req_id \<Rightarrow> MCPRequest" where
  "initialize_request request_id =
     \<lparr>req_jsonrpc = ''2.0'', req_method = ''initialize'',
      req_params = Some (JObj [(''protocolVersion'', JStr ''2024-11-05''),
        (''capabilities'', JObj []),
        (''clientInfo'', JObj [(''name'', JStr ''mcp-test-suite''), (''version'', JStr ''0.1.0'')])]),
      req_id = Some request_id\<rparr>"

definition initialized_notification :: MCPRequest where
  "initialized_notification =
     \<lparr>req_jsonrpc = ''2.0'', req_method = ''notifications/initialized'', req_params = None,
      req_id = None\<rparr>"

record MCPToolResult =
  content :: "json list"
  isError :: bool

record ToolInfo =
  ti_name :: string
  ti_description :: "string option"
  ti_inputSchema :: "json option"

record ConnectionInfo =
  connected_at :: real
  session_id :: "string option"
  ci_message_endpoint :: "string option"

record RawEvent =
  ev_type :: string
  ev_data :: string
  ev_id :: "string option"

section \<open>The SSE transport: \<open>SSEClient\<close>\<close>

text \<open>
  \<open>session\<close> and \<open>event_source\<close> say whether the attribute holds an object
  (\<open>is not None\<close>). The \<open>on_error\<close> callback is modelled by the list of exceptions it
  was called with.
\<close>

record SSEClient =
  config :: MCPServerConfig
  on_error :: bool
  on_error_calls :: "exn list"
  session :: bool
  event_source :: bool
  is_connected :: bool
  connection_info :: "ConnectionInfo option"
  last_event_time :: "real option"
  heartbeat_task :: bool

definition SSEClient_init :: "MCPServerConfig \<Rightarrow> SSEClient" where
  "SSEClient_init cfg =
     \<lparr>config = cfg, on_error = False, on_error_calls = [], session = False,
      event_source = False, is_connected = False, connection_info = None,
      last_event_time = None, heartbeat_task = False\<rparr>"

text \<open>The property \<open>message_endpoint\<close>.\<close>

definition message_endpoint :: "'a SSEClient_scheme \<Rightarrow> string" where
  "message_endpoint s =
     (case connection_info s of
        None \<Rightarrow> message_url (config s)
      | Some ci \<Rightarrow>
          (case ci_message_endpoint ci of
             None \<Rightarrow> message_url (config s)
           | Some [] \<Rightarrow> message_url (config s)
           | Some (c # cs) \<Rightarrow>
               if c = CHR ''/'' then base_url (config s) @ (c # cs) else c # cs))"

text \<open>
  \<open>_extract_session_id\<close>. \<open>re_search_session\<close> is
  \<open>re.search(r"sessionId=([^&]+)", endpoint)\<close> with its group 1: the leftmost position
  where the key is followed by at least one character other than \<open>&\<close>, and the longest
  run of such characters there.
\<close>

definition session_key :: string where
  "session_key = ''sessionId=''"

fun re_search_session :: "string \<Rightarrow> string option" where
  "re_search_session [] = None"
| "re_search_session (c # cs) =
     (if prefix session_key (c # cs)
         \<and> takeWhile (\<lambda>x. x \<noteq> CHR ''&'') (drop (length session_key) (c # cs)) \<noteq> []
      then Some (takeWhile (\<lambda>x. x \<noteq> CHR ''&'') (drop (length session_key) (c # cs)))
      else re_search_session cs)"

definition path_session_id :: "string \<Rightarrow> string option" where
  "path_session_id endpoint =
     (if CHR ''/'' \<in> set endpoint then
        (let parts = split_on CHR ''/'' (rstrip_slash endpoint)
         in if parts \<noteq> [] then Some (last parts) else None)
      else None)"

fun extract_session_id :: "string option \<Rightarrow> string option" where
  "extract_session_id None = None"
| "extract_session_id (Some endpoint) =
     (if endpoint = [] then None
      else if sublist session_key endpoint then
        (case re_search_session endpoint of
           Some v \<Rightarrow> Some v
         | None \<Rightarrow> path_session_id endpoint)
      else path_session_id endpoint)"

definition sse_close :: "'a SSEClient_scheme \<Rightarrow> 'a SSEClient_scheme" where
  "sse_close s =
     s\<lparr>is_connected := False, heartbeat_task := False, event_source := False,
       session := False, connection_info := None\<rparr>"

text \<open>
  \<open>SSEEvent.parse_json\<close> (\<open>loads\<close> is \<open>json.loads\<close>, a parameter) and the value of
  \<open>endpoint_data.get("uri")\<close>.
\<close>

definition parse_json :: "(string \<Rightarrow> exn + json) \<Rightarrow> string \<Rightarrow> exn + json option" where
  "parse_json loads d =
     (case loads d of
        Inl e \<Rightarrow> if is_JSONDecodeError e then Inr None else Inl e
      | Inr v \<Rightarrow> Inr (Some v))"

fun json_get :: "json \<Rightarrow> string \<Rightarrow> exn + json" where
  "json_get (JObj kvs) k = Inr (case map_of kvs k of None \<Rightarrow> JNull | Some v \<Rightarrow> v)"
| "json_get _ k = Inl (AttributeError ''object has no attribute get'')"

text \<open>
  The endpoint event's branch of \<open>connect\<close>: the \<open>ConnectionInfo\<close> built from the
  event's data. A \<open>uri\<close> that is neither a string nor null raises (a \<open>TypeError\<close> or an
  \<open>AttributeError\<close> in \<open>_extract_session_id\<close>, or the validation error of the
  \<open>Optional[str]\<close> field); the model has one exception for these.
\<close>

definition endpoint_info :: "(string \<Rightarrow> exn + json) \<Rightarrow> real \<Rightarrow> string \<Rightarrow> exn + ConnectionInfo" where
  "endpoint_info loads now d =
     (case parse_json loads d of
        Inl e \<Rightarrow> Inl e
      | Inr (Some endpoint_data) \<Rightarrow>
          if truthy endpoint_data then
            (case json_get endpoint_data ''uri'' of
               Inl e \<Rightarrow> Inl e
             | Inr JNull \<Rightarrow>
                 Inr \<lparr>connected_at = now, session_id = extract_session_id None,
                      ci_message_endpoint = None\<rparr>
             | Inr (JStr uri) \<Rightarrow>
                 Inr \<lparr>connected_at = now, session_id = extract_session_id (Some uri),
                      ci_message_endpoint = Some uri\<rparr>
             | Inr _ \<Rightarrow> Inl (TypeError ''uri is not a string''))
          else
            Inr \<lparr>connected_at = now, session_id = extract_session_id (Some d),
                 ci_message_endpoint = Some d\<rparr>
      | Inr None \<Rightarrow>
          Inr \<lparr>connected_at = now, session_id = extract_session_id (Some d),
               ci_message_endpoint = Some d\<rparr>)"

text \<open>
  The environment of one \<open>connect\<close>: whether opening the stream raised, the clock, the
  events the stream yields inside the \<open>asyncio.timeout\<close> block and how that block ends
  (the iteration over the event source ends, the deadline expires, or the stream raises).
  The code after the block handles the first ending, \<open>Exhausted\<close>. The event source of
  the library in use does not end its iteration when the stream ends (it waits and
  connects again), so no statement below rests on that ending.
\<close>

datatype stream_end = Exhausted | DeadlineExpired | StreamError exn

record sse_env =
  open_error :: "exn option"
  opened_at :: real
  events :: "RawEvent list"
  ending :: stream_end
  wall_clock :: real

text \<open>The two \<open>except\<close> clauses of \<open>connect\<close>; any other exception propagates.\<close>

definition connect_failed :: "exn \<Rightarrow> 'a SSEClient_scheme \<Rightarrow> (exn + bool) \<times> 'a SSEClient_scheme" where
  "connect_failed e s =
     (if is_TimeoutError e then (Inr False, sse_close s)
      else if is_Exception e then
        (Inr False,
         sse_close (if on_error s then s\<lparr>on_error_calls := on_error_calls s @ [e]\<rparr> else s))
      else (Inl e, s))"

fun wait_for_endpoint ::
  "(string \<Rightarrow> exn + json) \<Rightarrow> real \<Rightarrow> RawEvent list \<Rightarrow> stream_end \<Rightarrow> 'a SSEClient_scheme
    \<Rightarrow> (exn + bool) \<times> 'a SSEClient_scheme" where
  "wait_for_endpoint loads now [] fin s =
     (case fin of
        Exhausted \<Rightarrow> (Inr True, s)
      | DeadlineExpired \<Rightarrow> connect_failed (TimeoutError []) s
      | StreamError e \<Rightarrow> connect_failed e s)"
| "wait_for_endpoint loads now (ev # evs) fin s =
     (if ev_type ev = ''endpoint'' then
        (case endpoint_info loads now (ev_data ev) of
           Inl e \<Rightarrow> connect_failed e s
         | Inr ci \<Rightarrow> (Inr True, s\<lparr>connection_info := Some ci\<rparr>))
      else wait_for_endpoint loads now evs fin s)"

text \<open>
  \<open>SSEClient.connect\<close>. The value of \<open>timeout\<close> only sets the length of the deadline
  (\<open>timeout or 10.0\<close>); when it expires is the environment's \<open>ending\<close>.
\<close>

definition sse_connect ::
  "(string \<Rightarrow> exn + json) \<Rightarrow> real option \<Rightarrow> sse_env \<Rightarrow> 'a SSEClient_scheme
    \<Rightarrow> (exn + bool) \<times> 'a SSEClient_scheme" where
  "sse_connect loads timeout env s =
     (if is_connected s then (Inr True, s)
      else
        (case open_error env of
           Some e \<Rightarrow> connect_failed e (s\<lparr>session := True, event_source := True\<rparr>)
         | None \<Rightarrow>
             wait_for_endpoint loads (wall_clock env) (events env) (ending env)
               (s\<lparr>session := True, event_source := True, is_connected := True,
                  last_event_time := Some (opened_at env)\<rparr>)))"

section \<open>Reconnection with backoff: \<open>ReconnectingSSEClient\<close>\<close>

record ReconnectingSSEClient = SSEClient +
  max_retries :: int
  backoff_base :: real
  backoff_max :: real
  backoff_multiplier :: real
  reconnect_count :: int

text \<open>
  What \<open>connect_with_retry\<close> did, for the statements about it: the delays passed to
  \<open>asyncio.sleep\<close>, in order, and the number of calls of \<open>connect\<close>.
\<close>

record retry_trace =
  sleeps :: "real list"
  connects :: nat

text \<open>
  The loop \<open>for attempt in range(self.max_retries + 1)\<close>; \<open>envs attempt\<close> is the
  environment of the \<open>connect\<close> of that attempt.
\<close>

fun retry_loop ::
  "(string \<Rightarrow> exn + json) \<Rightarrow> (nat \<Rightarrow> sse_env) \<Rightarrow> nat list \<Rightarrow> real \<Rightarrow> retry_trace
    \<Rightarrow> 'a ReconnectingSSEClient_scheme
    \<Rightarrow> (exn + bool) \<times> retry_trace \<times> 'a ReconnectingSSEClient_scheme" where
  "retry_loop loads envs [] delay tr s = (Inr False, tr, s)"
| "retry_loop loads envs (attempt # rest) delay tr s =
     (let s1 = (if attempt > 0 then s\<lparr>reconnect_count := reconnect_count s + 1\<rparr> else s);
          tr1 = (if attempt > 0 then tr\<lparr>sleeps := sleeps tr @ [delay]\<rparr> else tr);
          delay1 = (if attempt > 0 then min (delay * backoff_multiplier s) (backoff_max s)
                    else delay);
          tr2 = tr1\<lparr>connects := connects tr1 + 1\<rparr>
      in case sse_connect loads None (envs attempt) s1 of
           (Inl e, s2) \<Rightarrow> (Inl e, tr2, s2)
         | (Inr True, s2) \<Rightarrow> (Inr True, tr2, s2)
         | (Inr False, s2) \<Rightarrow> retry_loop loads envs rest delay1 tr2 s2)"

definition connect_with_retry ::
  "(string \<Rightarrow> exn + json) \<Rightarrow> (nat \<Rightarrow> sse_env) \<Rightarrow> 'a ReconnectingSSEClient_scheme
    \<Rightarrow> (exn + bool) \<times> retry_trace \<times> 'a ReconnectingSSEClient_scheme" where
  "connect_with_retry loads envs s =
     retry_loop loads envs [0 ..< nat (max_retries s + 1)] (backoff_base s)
       \<lparr>sleeps = [], connects = 0\<rparr> s"

section \<open>The protocol client: \<open>MCPClient\<close>\<close>

record ToolCallResult =
  tool_name :: string
  success :: bool
  tcr_result :: "MCPToolResult option"
  tcr_error :: "string option"
  duration_ms :: real
  response_size_bytes :: nat

datatype task = Running | Done

record MCPClient =
  mcp_config :: MCPServerConfig
  client_timeout :: real
  sse_client :: "SSEClient option"
  http_client :: bool
  request_id :: int
  tools_cache :: "ToolInfo list option"
  initialized :: bool
  response_queue :: "MCPResponse list"
  listener_task :: "task option"

definition MCPClient_init :: "MCPServerConfig \<Rightarrow> real \<Rightarrow> MCPClient" where
  "MCPClient_init cfg tmo =
     \<lparr>mcp_config = cfg, client_timeout = tmo, sse_client = None, http_client = False,
      request_id = 0, tools_cache = None, initialized = False, response_queue = [],
      listener_task = None\<rparr>"

text \<open>
  What the libraries outside the repository compute is a parameter: \<open>json.loads\<close> and
  \<open>json.dumps\<close>, the validation pydantic runs when a model is built from keyword
  arguments, \<open>repr\<close> of a decoded JSON value, and the texts of a float and of an HTTP
  status error.
\<close>

record pylib =
  json_loads :: "string \<Rightarrow> exn + json"
  json_dumps :: "json \<Rightarrow> string"
  validate_MCPResponse :: "(string \<times> json) list \<Rightarrow> exn + MCPResponse"
  validate_ToolsListResult :: "(string \<times> json) list \<Rightarrow> exn + ToolInfo list"
  validate_MCPToolResult :: "(string \<times> json) list \<Rightarrow> exn + MCPToolResult"
  repr_any :: "json \<Rightarrow> string"
  str_float :: "real \<Rightarrow> string"
  status_message :: "nat \<Rightarrow> string"

text \<open>
  \<open>str(response.error)\<close>: pydantic writes a model as its fields, \<open>name=repr(value)\<close>,
  separated by spaces.
\<close>

definition str_MCPError :: "pylib \<Rightarrow> MCPError \<Rightarrow> string" where
  "str_MCPError lib e =
     ''code='' @ str_int (err_code e) @ '' message='' @ py_repr (err_message e) @ '' data=''
       @ (case err_data e of None \<Rightarrow> ''None'' | Some v \<Rightarrow> repr_any lib v)"

text \<open>\<open>Model(**data)\<close>: a \<open>TypeError\<close> unless \<open>data\<close> is a mapping.\<close>

definition MCPResponse_of :: "pylib \<Rightarrow> json \<Rightarrow> exn + MCPResponse" where
  "MCPResponse_of lib d =
     (case d of
        JObj kvs \<Rightarrow> validate_MCPResponse lib kvs
      | _ \<Rightarrow> Inl (TypeError ''argument after ** must be a mapping''))"

definition ToolsListResult_of :: "pylib \<Rightarrow> json \<Rightarrow> exn + ToolInfo list" where
  "ToolsListResult_of lib d =
     (case d of
        JObj kvs \<Rightarrow> validate_ToolsListResult lib kvs
      | _ \<Rightarrow> Inl (TypeError ''argument after ** must be a mapping''))"

text \<open>\<open>json.loads(text)\<close> followed by \<open>MCPResponse(**data)\<close>.\<close>

definition decode_response :: "pylib \<Rightarrow> string \<Rightarrow> exn + MCPResponse" where
  "decode_response lib text =
     (case json_loads lib text of
        Inl e \<Rightarrow> Inl e
      | Inr d \<Rightarrow> MCPResponse_of lib d)"

text \<open>\<open>MCPResponse.get_tool_result\<close>.\<close>

definition get_tool_result :: "pylib \<Rightarrow> MCPResponse \<Rightarrow> exn + MCPToolResult option" where
  "get_tool_result lib r =
     (case resp_result r of
        Some (JObj kvs) \<Rightarrow>
          if kvs \<noteq> [] then
            (case validate_MCPToolResult lib kvs of
               Inl e \<Rightarrow> Inl e
             | Inr t \<Rightarrow> Inr (Some t))
          else Inr None
      | _ \<Rightarrow> Inr None)"

subsection \<open>Waiting for a response on the queue\<close>

text \<open>
  One element of the environment of \<open>_wait_for_sse_response\<close> for each iteration of its
  loop: \<open>Tick now arrived\<close> gives the value \<open>time.time()\<close> returns at the top of the
  iteration and the responses the listener task puts on the queue while
  \<open>wait_for(queue.get(), remaining_timeout)\<close> is suspended; \<open>Cancel\<close> is the cancellation
  of the waiting task at that point. \<open>wait_for\<close> returns the head of the queue, and raises
  \<open>TimeoutError\<close> when the queue stayed empty. The result is \<open>None\<close> when the script
  ends with the loop still running.
\<close>

datatype tick = Tick real "MCPResponse list" | Cancel

definition timeout_message :: "req_id option \<Rightarrow> string" where
  "timeout_message rid = ''Timeout waiting for response to request '' @ str_req_id rid"

fun wait_loop ::
  "req_id option \<Rightarrow> real \<Rightarrow> real \<Rightarrow> MCPResponse list \<Rightarrow> tick list \<Rightarrow> MCPResponse list
    \<Rightarrow> ((exn + MCPResponse) \<times> MCPResponse list) option" where
  "wait_loop rid tmo start_time pending_responses [] q = None"
| "wait_loop rid tmo start_time pending_responses (Cancel # ts) q =
     Some (Inl CancelledError, q)"
| "wait_loop rid tmo start_time pending_responses (Tick now arrived # ts) q =
     (if tmo - (now - start_time) \<le> 0 then
        Some (Inl (TimeoutError (timeout_message rid)), q)
      else
        (case q @ arrived of
           [] \<Rightarrow> Some (Inl (TimeoutError (timeout_message rid)), pending_responses)
         | response # q' \<Rightarrow>
             if rid = None \<or> resp_id response = rid then
               Some (Inr response, q' @ pending_responses)
             else wait_loop rid tmo start_time (pending_responses @ [response]) ts q'))"

definition wait_for_sse_response ::
  "req_id option \<Rightarrow> real \<Rightarrow> real \<Rightarrow> tick list \<Rightarrow> MCPClient
    \<Rightarrow> ((exn + MCPResponse) \<times> MCPClient) option" where
  "wait_for_sse_response rid tmo start_time ts st =
     (case wait_loop rid tmo start_time [] ts (response_queue st) of
        None \<Rightarrow> None
      | Some (r, q) \<Rightarrow> Some (r, st\<lparr>response_queue := q\<rparr>))"

subsection \<open>Sending\<close>

text \<open>
  The environment of a request: what \<open>client.post(endpoint, json=request)\<close> does (it
  raises, or returns a status code and a body), the clock at the start of the wait, and
  the script of the wait.
\<close>

datatype post_outcome = PostRaises exn | PostReturns nat string

record io =
  post :: "string \<Rightarrow> MCPRequest \<Rightarrow> post_outcome"
  wait_start :: real
  ticks :: "tick list"

text \<open>\<open>Response.raise_for_status\<close> of httpx: an error unless the status is 2xx.\<close>

definition raise_for_status :: "pylib \<Rightarrow> nat \<Rightarrow> string \<Rightarrow> exn option" where
  "raise_for_status lib status text =
     (if 200 \<le> status \<and> status < 300 then None
      else Some (HTTPStatusError (status_message lib status) status text))"

definition request_endpoint :: "MCPClient \<Rightarrow> SSEClient \<Rightarrow> string" where
  "request_endpoint st sse =
     (if message_endpoint sse = [] then message_url (mcp_config st) else message_endpoint sse)"

definition send_request ::
  "pylib \<Rightarrow> MCPRequest \<Rightarrow> 'a io_scheme \<Rightarrow> MCPClient \<Rightarrow> ((exn + MCPResponse) \<times> MCPClient) option" where
  "send_request lib request env st =
     (case sse_client st of
        None \<Rightarrow> Some (Inl (RuntimeError ''Not connected''), st)
      | Some sse \<Rightarrow>
          (let st1 = st\<lparr>http_client := True\<rparr> in
           case post env (request_endpoint st sse) request of
             PostRaises e \<Rightarrow> Some (Inl e, st1)
           | PostReturns status text \<Rightarrow>
               (case raise_for_status lib status text of
                  Some e \<Rightarrow> Some (Inl e, st1)
                | None \<Rightarrow>
                    if status = 202 then
                      wait_for_sse_response (req_id request) 30 (wait_start env) (ticks env) st1
                    else if text = [] \<or> strip text = [] then
                      wait_for_sse_response (req_id request) 30 (wait_start env) (ticks env) st1
                    else Some (decode_response lib text, st1))))"

definition send_notification ::
  "pylib \<Rightarrow> MCPRequest \<Rightarrow> 'a io_scheme \<Rightarrow> MCPClient \<Rightarrow> (exn + unit) \<times> MCPClient" where
  "send_notification lib notification env st =
     (case sse_client st of
        None \<Rightarrow> (Inl (RuntimeError ''Not connected''), st)
      | Some sse \<Rightarrow>
          (let st1 = st\<lparr>http_client := True\<rparr> in
           case post env (request_endpoint st sse) notification of
             PostRaises e \<Rightarrow> if is_Exception e then (Inr (), st1) else (Inl e, st1)
           | PostReturns status text \<Rightarrow> (Inr (), st1)))"

subsection \<open>Tools\<close>

text \<open>
  \<open>list_tools\<close> has no handler of its own: what \<open>_send_request\<close> raises propagates, and
  an error response is raised as a \<open>RuntimeError\<close>.
\<close>

definition list_tools ::
  "pylib \<Rightarrow> bool \<Rightarrow> 'a io_scheme \<Rightarrow> MCPClient \<Rightarrow> ((exn + ToolInfo list) \<times> MCPClient) option" where
  "list_tools lib use_cache env st =
     (case (if use_cache then tools_cache st else None) of
        Some cached \<Rightarrow> Some (Inr cached, st)
      | None \<Rightarrow>
          (let st1 = st\<lparr>request_id := request_id st + 1\<rparr> in
           case send_request lib (list_tools_request (IntId (request_id st1))) env st1 of
             None \<Rightarrow> None
           | Some (Inl e, st2) \<Rightarrow> Some (Inl e, st2)
           | Some (Inr response, st2) \<Rightarrow>
               (case resp_error response of
                  Some err \<Rightarrow>
                    Some (Inl (RuntimeError (''List tools failed: '' @ str_MCPError lib err)), st2)
                | None \<Rightarrow>
                    (case resp_result response of
                       None \<Rightarrow> Some (Inr [], st2)
                     | Some v \<Rightarrow>
                         if truthy v then
                           (case ToolsListResult_of lib v of
                              Inl e \<Rightarrow> Some (Inl e, st2)
                            | Inr tools \<Rightarrow> Some (Inr tools, st2\<lparr>tools_cache := Some tools\<rparr>))
                         else Some (Inr [], st2)))))"

text \<open>
  The environment of \<open>call_tool\<close> adds the two clock readings and whether the timer of
  \<open>asyncio.timeout(timeout)\<close> is what cancelled the request. That context manager turns
  the cancellation it caused into a \<open>TimeoutError\<close>.
\<close>

record call_env = io +
  call_started :: real
  call_finished :: real
  timer_expired :: bool

definition asyncio_timeout :: "bool \<Rightarrow> exn + 'a \<Rightarrow> exn + 'a" where
  "asyncio_timeout expired r =
     (case r of
        Inl e \<Rightarrow> if e = CancelledError \<and> expired then Inl (TimeoutError []) else Inl e
      | Inr v \<Rightarrow> Inr v)"

definition str_timeout :: "pylib \<Rightarrow> real option \<Rightarrow> string" where
  "str_timeout lib tmo = (case tmo of None \<Rightarrow> ''None'' | Some t \<Rightarrow> str_float lib t)"

text \<open>The two \<open>except\<close> clauses of \<open>call_tool\<close>.\<close>

definition call_tool_failed ::
  "pylib \<Rightarrow> string \<Rightarrow> real option \<Rightarrow> real \<Rightarrow> exn \<Rightarrow> exn + ToolCallResult" where
  "call_tool_failed lib name tmo duration e =
     (if is_TimeoutError e then
        Inr \<lparr>tool_name = name, success = False, tcr_result = None,
             tcr_error = Some (''Timeout after '' @ str_timeout lib tmo @ ''s''),
             duration_ms = duration, response_size_bytes = 0\<rparr>
      else if is_Exception e then
        Inr \<lparr>tool_name = name, success = False, tcr_result = None,
             tcr_error = Some (str_exn e), duration_ms = duration, response_size_bytes = 0\<rparr>
      else Inl e)"

text \<open>The part of \<open>call_tool\<close> after the response has come.\<close>

definition tool_call_result ::
  "pylib \<Rightarrow> string \<Rightarrow> real option \<Rightarrow> real \<Rightarrow> MCPResponse \<Rightarrow> exn + ToolCallResult" where
  "tool_call_result lib name tmo duration response =
     (case resp_error response of
        Some err \<Rightarrow>
          Inr \<lparr>tool_name = name, success = False, tcr_result = None,
               tcr_error = Some (str_MCPError lib err), duration_ms = duration,
               response_size_bytes = 0\<rparr>
      | None \<Rightarrow>
          (case get_tool_result lib response of
             Inl e \<Rightarrow> call_tool_failed lib name tmo duration e
           | Inr tool_result \<Rightarrow>
               Inr \<lparr>tool_name = name, success = True, tcr_result = tool_result,
                    tcr_error = None, duration_ms = duration,
                    response_size_bytes =
                      (case resp_result response of
                         None \<Rightarrow> 0
                       | Some v \<Rightarrow> if truthy v then length (json_dumps lib v) else 0)\<rparr>))"

definition call_tool ::
  "pylib \<Rightarrow> string \<Rightarrow> (string \<times> json) list option \<Rightarrow> real option \<Rightarrow> 'a call_env_scheme
    \<Rightarrow> MCPClient \<Rightarrow> ((exn + ToolCallResult) \<times> MCPClient) option" where
  "call_tool lib name arguments tmo env st =
     (let args = (case arguments of None \<Rightarrow> [] | Some a \<Rightarrow> a);
          st1 = st\<lparr>request_id := request_id st + 1\<rparr>;
          request = tool_call name (JObj args) (IntId (request_id st1));
          duration = (call_finished env - call_started env) * 1000
      in case send_request lib request env st1 of
           None \<Rightarrow> None
         | Some (r, st2) \<Rightarrow>
             (case (if tmo \<noteq> None \<and> tmo \<noteq> Some 0
                    then asyncio_timeout (timer_expired env) r else r) of
                Inl e \<Rightarrow> Some (call_tool_failed lib name tmo duration e, st2)
              | Inr response \<Rightarrow> Some (tool_call_result lib name tmo duration response, st2)))"

subsection \<open>The listener task\<close>

text \<open>
  The loop of \<open>_listen_for_responses\<close> over the events the stream yields. Its result is
  the exception that leaves the loop, if any, and the queue.
\<close>

fun listen_loop :: "pylib \<Rightarrow> RawEvent list \<Rightarrow> MCPResponse list \<Rightarrow> exn option \<times> MCPResponse list" where
  "listen_loop lib [] q = (None, q)"
| "listen_loop lib (event # rest) q =
     (if ev_type event = ''endpoint'' then listen_loop lib rest q
      else if ev_data event \<noteq> [] then
        (case decode_response lib (ev_data event) of
           Inr response \<Rightarrow> listen_loop lib rest (q @ [response])
         | Inl e \<Rightarrow>
             if is_JSONDecodeError e then listen_loop lib rest q
             else if is_Exception e then listen_loop lib rest q
             else (Some e, q))
      else listen_loop lib rest q)"

text \<open>
  The task's body: the outer handlers catch \<open>CancelledError\<close> and every \<open>Exception\<close>, so
  whatever ends the loop or the stream, the task finishes.
\<close>

definition listen_for_responses :: "pylib \<Rightarrow> RawEvent list \<Rightarrow> MCPClient \<Rightarrow> MCPClient" where
  "listen_for_responses lib evs st =
     (case sse_client st of
        None \<Rightarrow> st\<lparr>listener_task := Some Done\<rparr>
      | Some sse \<Rightarrow>
          if event_source sse then
            st\<lparr>response_queue := snd (listen_loop lib evs (response_queue st)),
               listener_task := Some Done\<rparr>
          else st\<lparr>listener_task := Some Done\<rparr>)"

subsection \<open>Connecting and closing\<close>

definition initialize ::
  "pylib \<Rightarrow> 'a io_scheme \<Rightarrow> MCPClient \<Rightarrow> ((exn + unit) \<times> MCPClient) option" where
  "initialize lib env st =
     (case sse_client st of
        None \<Rightarrow> Some (Inl (RuntimeError ''SSE client not connected''), st)
      | Some sse \<Rightarrow>
          if message_endpoint sse = [] then
            Some (Inl (RuntimeError ''SSE client not connected''), st)
          else
            (let st1 = st\<lparr>request_id := request_id st + 1\<rparr> in
             case send_request lib (initialize_request (IntId (request_id st1))) env st1 of
               None \<Rightarrow> None
             | Some (Inl e, st2) \<Rightarrow> Some (Inl e, st2)
             | Some (Inr response, st2) \<Rightarrow>
                 (case resp_error response of
                    Some err \<Rightarrow>
                      Some (Inl (RuntimeError (''Initialize failed: '' @ str_MCPError lib err)), st2)
                  | None \<Rightarrow>
                      (case send_notification lib initialized_notification env st2 of
                         (Inl e, st3) \<Rightarrow> Some (Inl e, st3)
                       | (Inr u, st3) \<Rightarrow> Some (Inr (), st3\<lparr>initialized := True\<rparr>)))))"

record connect_env = io +
  transport :: sse_env

text \<open>
  \<open>MCPClient.connect\<close>. \<open>asyncio.create_task\<close> leaves the listener running; the handler
  \<open>except Exception\<close> logs and returns \<open>False\<close>.
\<close>

definition mcp_connect ::
  "pylib \<Rightarrow> 'a connect_env_scheme \<Rightarrow> MCPClient \<Rightarrow> ((exn + bool) \<times> MCPClient) option" where
  "mcp_connect lib env st =
     (case sse_connect (json_loads lib) None (transport env) (SSEClient_init (mcp_config st)) of
        (Inl e, sse) \<Rightarrow>
          Some (if is_Exception e then Inr False else Inl e, st\<lparr>sse_client := Some sse\<rparr>)
      | (Inr False, sse) \<Rightarrow> Some (Inr False, st\<lparr>sse_client := Some sse\<rparr>)
      | (Inr True, sse) \<Rightarrow>
          (case initialize lib env (st\<lparr>sse_client := Some sse, listener_task := Some Running\<rparr>) of
             None \<Rightarrow> None
           | Some (Inl e, st2) \<Rightarrow> Some (if is_Exception e then Inr False else Inl e, st2)
           | Some (Inr u, st2) \<Rightarrow> Some (Inr True, st2)))"

definition mcp_close :: "MCPClient \<Rightarrow> MCPClient" where
  "mcp_close st =
     st\<lparr>listener_task := None, http_client := False, sse_client := None,
        initialized := False, tools_cache := None, response_queue := []\<rparr>"

section \<open>The backoff schedule, as the specification words it\<close>

text \<open>
  The delay starts at a base value and is multiplied after each failed attempt, capped at a
  maximum: the first \<open>n\<close> delays.
\<close>

fun backoff_delays :: "real \<Rightarrow> real \<Rightarrow> real \<Rightarrow> nat \<Rightarrow> real list" where
  "backoff_delays d m c 0 = []"
| "backoff_delays d m c (Suc n) = d # backoff_delays (min (d * m) c) m c n"

section \<open>Example values\<close>

text \<open>The defaults of \<open>MCPServerConfig\<close>, and the constructor of the reconnecting client.\<close>

definition default_config :: "string \<Rightarrow> MCPServerConfig" where
  "default_config key =
     \<lparr>base_url = ''http://localhost:8080'', sse_endpoint = ''/mcp/spring/sse'',
      cfg_message_endpoint = ''/mcp/spring/messages'', api_key = key, auth_method = ''header''\<rparr>"

definition ReconnectingSSEClient_init ::
  "MCPServerConfig \<Rightarrow> int \<Rightarrow> real \<Rightarrow> real \<Rightarrow> real \<Rightarrow> ReconnectingSSEClient" where
  "ReconnectingSSEClient_init cfg retries base cap mult =
     \<lparr>config = cfg, on_error = False, on_error_calls = [], session = False,
      event_source = False, is_connected = False, connection_info = None,
      last_event_time = None, heartbeat_task = False,
      max_retries = retries, backoff_base = base, backoff_max = cap,
      backoff_multiplier = mult, reconnect_count = 0\<rparr>"

text \<open>A decoder for data that is not JSON, and environments for the examples.\<close>

definition not_json :: "string \<Rightarrow> exn + json" where
  "not_json s = Inl (JSONDecodeError ''Expecting value'')"

definition result_response :: "int \<Rightarrow> MCPResponse" where
  "result_response i =
     \<lparr>resp_jsonrpc = ''2.0'', resp_result = Some (JObj [(''content'', JArr [])]),
      resp_error = None, resp_id = Some (IntId i)\<rparr>"

definition heartbeat :: RawEvent where
  "heartbeat = \<lparr>ev_type = ''heartbeat'', ev_data = [], ev_id = None\<rparr>"

definition silent_stream :: "stream_end \<Rightarrow> sse_env" where
  "silent_stream fin =
     \<lparr>open_error = None, opened_at = 0, events = [heartbeat], ending = fin, wall_clock = 0\<rparr>"

definition refused :: sse_env where
  "refused =
     \<lparr>open_error = Some (OtherException ''Connection refused''), opened_at = 0, events = [],
      ending = DeadlineExpired, wall_clock = 0\<rparr>"

text \<open>
  A stand-in for the libraries: \<open>json.loads\<close> on the bodies the examples use (every
  other text is not JSON) and the validation of a response object.
\<close>

definition example_loads :: "string \<Rightarrow> exn + json" where
  \<open>example_loads s =
     (if s = ''{"id":2,"result":{"tools":[]}}'' then
        Inr (JObj [(''id'', JNum 2), (''result'', JObj [(''tools'', JArr [])])])
      else if s = ''{"id":3,"error":{"code":-32601,"message":"not found"}}'' then
        Inr (JObj [(''id'', JNum 3),
          (''error'', JObj [(''code'', JNum (- 32601)), (''message'', JStr ''not found'')])])
      else if s = ''{"x":1}'' then Inr (JObj [(''x'', JNum 1)])
      else if s = ''{"uri":"/mcp/message?sessionId=abc"}'' then
        Inr (JObj [(''uri'', JStr ''/mcp/message?sessionId=abc'')])
      else Inl (JSONDecodeError ''Expecting value''))\<close>

definition example_error :: "json \<Rightarrow> MCPError option" where
  "example_error v =
     (case v of
        JObj kvs \<Rightarrow>
          Some \<lparr>err_code = (case map_of kvs ''code'' of Some (JNum n) \<Rightarrow> \<lfloor>n\<rfloor> | _ \<Rightarrow> 0),
                err_message = (case map_of kvs ''message'' of Some (JStr m) \<Rightarrow> m | _ \<Rightarrow> []),
                err_data = map_of kvs ''data''\<rparr>
      | _ \<Rightarrow> None)"

definition example_validate :: "(string \<times> json) list \<Rightarrow> exn + MCPResponse" where
  "example_validate kvs =
     Inr \<lparr>resp_jsonrpc = ''2.0'', resp_result = map_of kvs ''result'',
          resp_error = (case map_of kvs ''error'' of None \<Rightarrow> None | Some v \<Rightarrow> example_error v),
          resp_id = (case map_of kvs ''id'' of
                       Some (JNum n) \<Rightarrow> Some (IntId \<lfloor>n\<rfloor>)
                     | Some (JStr s) \<Rightarrow> Some (StrId s)
                     | _ \<Rightarrow> None)\<rparr>"

definition example_lib :: pylib where
  "example_lib =
     \<lparr>json_loads = example_loads, json_dumps = (\<lambda>v. ''{}''),
      validate_MCPResponse = example_validate,
      validate_ToolsListResult = (\<lambda>kvs. Inr []),
      validate_MCPToolResult = (\<lambda>kvs. Inr \<lparr>content = [], isError = False\<rparr>),
      repr_any = (\<lambda>v. ''{}''), str_float = (\<lambda>x. ''30.0''),
      status_message = (\<lambda>n. ''status '' @ str_nat n)\<rparr>"

text \<open>A connected and initialized client, and environments in which every POST is answered
  with the same status and body.\<close>

definition connected_sse :: SSEClient where
  "connected_sse =
     (SSEClient_init (default_config ''k''))
       \<lparr>session := True, event_source := True, is_connected := True,
        connection_info := Some \<lparr>connected_at = 0, session_id = Some ''abc'',
          ci_message_endpoint = Some ''/mcp/spring/messages?sessionId=abc''\<rparr>,
        last_event_time := Some 0\<rparr>"

definition connected_client :: MCPClient where
  "connected_client =
     (MCPClient_init (default_config ''k'') 30)
       \<lparr>sse_client := Some connected_sse, http_client := True, request_id := 1,
        initialized := True, listener_task := Some Running\<rparr>"

definition replies :: "nat \<Rightarrow> string \<Rightarrow> tick list \<Rightarrow> io" where
  "replies status body ts =
     \<lparr>post = (\<lambda>url request. PostReturns status body), wait_start = 0, ticks = ts\<rparr>"

text \<open>An error response whose message holds a newline.\<close>

definition newline_error :: MCPResponse where
  "newline_error =
     \<lparr>resp_jsonrpc = ''2.0'', resp_result = None,
      resp_error = Some \<lparr>err_code = - 32601, err_message = ''not'' @ [CHR 0x0A] @ ''found'',
        err_data = None\<rparr>,
      resp_id = Some (IntId 2)\<rparr>"

definition tool_env :: "nat \<Rightarrow> string \<Rightarrow> tick list \<Rightarrow> call_env" where
  "tool_env status body ts =
     \<lparr>post = (\<lambda>url request. PostReturns status body), wait_start = 0, ticks = ts,
      call_started = 0, call_finished = 1 / 2, timer_expired = False\<rparr>"

section \<open>When a wait ends\<close>

text \<open>
  A tick ends the wait whatever the queue holds when the clock has reached the deadline,
  or when the task is cancelled. The wall clock passes every deadline, so the script of a
  run holds such a tick.
\<close>

fun ends_wait :: "real \<Rightarrow> real \<Rightarrow> tick \<Rightarrow> bool" where
  "ends_wait tmo start_time Cancel = True"
| "ends_wait tmo start_time (Tick now arrived) = (tmo - (now - start_time) \<le> 0)"

section \<open>What the listener is to deposit, as the specification words it\<close>

text \<open>
  The listener skips endpoint events, tries to decode the data of every other event as a
  response, and deposits the responses that decode, in the order of the events; data
  that does not decode is dropped.
\<close>

fun deposits :: "pylib \<Rightarrow> RawEvent list \<Rightarrow> MCPResponse list" where
  "deposits lib [] = []"
| "deposits lib (ev # evs) =
     (if ev_type ev = ''endpoint'' \<or> ev_data ev = [] then deposits lib evs
      else
        (case decode_response lib (ev_data ev) of
           Inl e \<Rightarrow> deposits lib evs
         | Inr r \<Rightarrow> r # deposits lib evs))"

definition message_event :: "string \<Rightarrow> RawEvent" where
  "message_event d = \<lparr>ev_type = ''message'', ev_data = d, ev_id = None\<rparr>"

text \<open>
  Two environments for \<open>MCPClient.connect\<close>: the stream opens and sends its endpoint
  event, then the server answers every POST with status 500; and the stream cannot be
  opened.
\<close>

definition failing_initialize :: connect_env where
  "failing_initialize =
     \<lparr>post = (\<lambda>url request. PostReturns 500 []), wait_start = 0, ticks = [],
      transport = \<lparr>open_error = None, opened_at = 0,
        events = [\<lparr>ev_type = ''endpoint'', ev_data = ''/mcp/message?sessionId=abc'', ev_id = None\<rparr>],
        ending = DeadlineExpired, wall_clock = 0\<rparr>\<rparr>"

definition failing_transport :: connect_env where
  "failing_transport =
     \<lparr>post = (\<lambda>url request. PostReturns 500 []), wait_start = 0, ticks = [],
      transport = refused\<rparr>"

text \<open>The responses that arrive during a tick.\<close>

fun arrivals :: "tick \<Rightarrow> MCPResponse list" where
  "arrivals (Tick now arrived) = arrived"
| "arrivals Cancel = []"

section \<open>Properties of the transport\<close>

subsection \<open>Connecting when already connected\<close>

text \<open>
  C10. When the client is already connected, \<open>connect\<close> returns \<open>True\<close> and leaves the
  whole state as it was, whatever the environment would do: no stream is opened and no
  event is waited for.
\<close>

theorem connect_when_connected:
  "is_connected s \<Longrightarrow> sse_connect loads tmo env s = (Inr True, s)"
  by (simp add: sse_connect_def)

text \<open>C10, at a connected client whose stream would time out if it were opened again.\<close>

theorem connect_when_connected_witness:
  "sse_connect not_json None (silent_stream DeadlineExpired)
     ((SSEClient_init (default_config ''k''))\<lparr>is_connected := True\<rparr>)
   = (Inr True, (SSEClient_init (default_config ''k''))\<lparr>is_connected := True\<rparr>)"
  using connect_when_connected
    [of "(SSEClient_init (default_config ''k''))\<lparr>is_connected := True\<rparr>" not_json None
        "silent_stream DeadlineExpired"]
  by simp

subsection \<open>No endpoint event\<close>

lemma wait_for_endpoint_no_endpoint:
  "list_all (\<lambda>ev. ev_type ev \<noteq> ''endpoint'') evs \<Longrightarrow>
     wait_for_endpoint loads now evs fin s = wait_for_endpoint loads now [] fin s"
  by (induction evs) simp_all

text \<open>
  C4 as stated fails: the stream opens, only a heartbeat comes, the deadline expires, and
  \<open>connect\<close> returns \<open>False\<close>.
\<close>

theorem connect_deadline_counterexample:
  "fst (sse_connect not_json None (silent_stream DeadlineExpired)
          (SSEClient_init (default_config ''k''))) = Inr False"
  by (simp add: sse_connect_def silent_stream_def heartbeat_def SSEClient_init_def
      connect_failed_def sse_close_def)

text \<open>
  C4, amended. When the stream opens and no endpoint event arrives before the deadline,
  the \<open>TimeoutError\<close> of the deadline is handled by closing the connection, and
  \<open>connect\<close> returns \<open>False\<close>: the client is left disconnected, without session, event
  source or connection info, so that its message endpoint is the configured message URL.
\<close>

theorem connect_without_endpoint_event:
  assumes "\<not> is_connected s" and "open_error env = None"
    and "list_all (\<lambda>ev. ev_type ev \<noteq> ''endpoint'') (events env)"
    and "ending env = DeadlineExpired"
  shows "fst (sse_connect loads tmo env s) = Inr False
       \<and> \<not> is_connected (snd (sse_connect loads tmo env s))
       \<and> \<not> event_source (snd (sse_connect loads tmo env s))
       \<and> \<not> session (snd (sse_connect loads tmo env s))
       \<and> connection_info (snd (sse_connect loads tmo env s)) = None
       \<and> message_endpoint (snd (sse_connect loads tmo env s)) = message_url (config s)"
  using assms
  by (simp add: sse_connect_def wait_for_endpoint_no_endpoint message_endpoint_def
      connect_failed_def sse_close_def)

text \<open>
  C4, amended, at a fresh client and a stream that sends one heartbeat before the deadline
  expires.
\<close>

theorem connect_without_endpoint_event_witness:
  "sse_connect not_json None (silent_stream DeadlineExpired) (SSEClient_init (default_config ''k''))
     = (Inr False, (SSEClient_init (default_config ''k''))\<lparr>last_event_time := Some 0\<rparr>)
   \<and> message_endpoint
       (snd (sse_connect not_json None (silent_stream DeadlineExpired)
          (SSEClient_init (default_config ''k''))))
     = ''http://localhost:8080/mcp/spring/messages''"
  using connect_without_endpoint_event
    [of "SSEClient_init (default_config ''k'')" "silent_stream DeadlineExpired" not_json None]
  by (simp add: SSEClient_init_def silent_stream_def heartbeat_def message_url_def
      default_config_def sse_connect_def connect_failed_def sse_close_def message_endpoint_def)

subsection \<open>Reconnection with backoff\<close>

text \<open>\<open>connect\<close> leaves the fields of the reconnecting client alone.\<close>

lemma connect_failed_frame:
  "backoff_multiplier (snd (connect_failed e s)) = backoff_multiplier s
   \<and> backoff_max (snd (connect_failed e s)) = backoff_max s
   \<and> reconnect_count (snd (connect_failed e s)) = reconnect_count s"
  by (simp add: connect_failed_def sse_close_def)

lemma wait_for_endpoint_frame:
  "backoff_multiplier (snd (wait_for_endpoint loads now evs fin s)) = backoff_multiplier s
   \<and> backoff_max (snd (wait_for_endpoint loads now evs fin s)) = backoff_max s
   \<and> reconnect_count (snd (wait_for_endpoint loads now evs fin s)) = reconnect_count s"
  by (induction evs) (auto simp: connect_failed_frame split: stream_end.splits sum.splits)

lemma sse_connect_frame:
  "backoff_multiplier (snd (sse_connect loads tmo env s)) = backoff_multiplier s
   \<and> backoff_max (snd (sse_connect loads tmo env s)) = backoff_max s
   \<and> reconnect_count (snd (sse_connect loads tmo env s)) = reconnect_count s"
  by (simp add: sse_connect_def connect_failed_frame wait_for_endpoint_frame split: option.splits)

lemma length_backoff_delays [simp]: "length (backoff_delays d m c n) = n"
  by (induction n arbitrary: d) simp_all

lemma retry_loop_trace:
  assumes "list_all (\<lambda>a. 0 < a) as" and "retry_loop loads envs as d tr s = (r, tr', s')"
  shows "\<exists>k \<le> length as.
           sleeps tr' = sleeps tr @ backoff_delays d (backoff_multiplier s) (backoff_max s) k
         \<and> connects tr' = connects tr + k
         \<and> reconnect_count s' = reconnect_count s + int k
         \<and> (r = Inr False \<longrightarrow> k = length as)"
  using assms
proof (induction as arbitrary: d tr s)
  case Nil
  then show ?case by simp
next
  case (Cons a as)
  let ?s1 = "s\<lparr>reconnect_count := reconnect_count s + 1\<rparr>"
  let ?tr2 = "tr\<lparr>sleeps := sleeps tr @ [d], connects := connects tr + 1\<rparr>"
  let ?d1 = "min (d * backoff_multiplier s) (backoff_max s)"
  obtain c s2 where c: "sse_connect loads None (envs a) ?s1 = (c, s2)"
    by (cases "sse_connect loads None (envs a) ?s1")
  have fr: "backoff_multiplier s2 = backoff_multiplier s" "backoff_max s2 = backoff_max s"
    "reconnect_count s2 = reconnect_count s + 1"
    using sse_connect_frame [of loads None "envs a" ?s1] c by simp_all
  from Cons.prems have pos: "0 < a" "list_all (\<lambda>a. 0 < a) as" by simp_all
  show ?case
  proof (cases "c = Inr False")
    case True
    with Cons.prems(2) pos c have "retry_loop loads envs as ?d1 ?tr2 s2 = (r, tr', s')"
      by (simp add: Let_def)
    from Cons.IH [OF pos(2) this] obtain k where k: "k \<le> length as"
      "sleeps tr' = sleeps ?tr2 @ backoff_delays ?d1 (backoff_multiplier s2) (backoff_max s2) k"
      "connects tr' = connects ?tr2 + k" "reconnect_count s' = reconnect_count s2 + int k"
      "r = Inr False \<longrightarrow> k = length as" by blast
    show ?thesis
      by (rule exI [of _ "Suc k"]) (use k fr in simp)
  next
    case False
    with Cons.prems(2) pos c have "r = c \<and> tr' = ?tr2 \<and> s' = s2"
      by (cases c) (auto simp: Let_def split: bool.splits)
    with False fr show ?thesis
      by (intro exI [of _ "Suc 0"]) simp
  qed
qed

lemma backoff_delays_doubling:
  "0 \<le> d \<Longrightarrow> d \<le> 10 \<Longrightarrow> i < n \<Longrightarrow> backoff_delays d 2 10 n ! i = min (d * 2 ^ i) 10"
proof (induction n arbitrary: d i)
  case 0
  then show ?case by simp
next
  case (Suc n)
  show ?case
  proof (cases i)
    case 0
    with Suc.prems show ?thesis by simp
  next
    case (Suc j)
    have one: "(1::real) \<le> 2 ^ j" by simp
    from Suc.prems Suc have "j < n" by simp
    moreover have "0 \<le> min (d * 2) 10" "min (d * 2) 10 \<le> (10::real)"
      using Suc.prems by simp_all
    ultimately have "backoff_delays (min (d * 2) 10) 2 10 n ! j = min (min (d * 2) 10 * 2 ^ j) 10"
      by (rule Suc.IH [rotated 2])
    moreover have "min (min (d * 2) 10 * 2 ^ j) 10 = min (d * 2 ^ Suc j) (10::real)"
    proof (cases "d * 2 \<le> 10")
      case True
      then show ?thesis by (simp add: mult.assoc)
    next
      case False
      have "d * 2 * 1 \<le> d * 2 * 2 ^ j"
        using one Suc.prems(1) by (intro mult_left_mono) simp_all
      then have "d * 2 \<le> d * 2 * 2 ^ j" by simp
      with False have big: "10 \<le> d * 2 * 2 ^ j" by linarith
      have ten: "(10::real) \<le> 10 * 2 ^ j" using one by simp
      have a: "min (d * 2) 10 = (10::real)" using False by simp
      have b: "d * 2 ^ Suc j = d * 2 * 2 ^ j" by simp
      show ?thesis unfolding a b using big ten by (simp only: min_absorb2)
    qed
    ultimately show ?thesis using Suc by simp
  qed
qed

text \<open>
  C7, amended. One call of \<open>connect_with_retry\<close> with \<open>max_retries\<close> \<open>N\<close> calls
  \<open>connect\<close> at most \<open>N + 1\<close> times (once, then at most \<open>N\<close> reconnections; exactly
  \<open>N + 1\<close> times when every attempt fails). It sleeps before each reconnection and not
  before the first attempt; the delays are the backoff schedule (the base, then each the
  minimum of the previous delay times the multiplier and the cap), so with base 1,
  multiplier 2 and cap 10 the delay before reconnection \<open>i + 1\<close> is \<open>min (2 ^ i) 10\<close>:
  1, 2, 4, 8, 10, 10, ... The counter \<open>reconnect_count\<close> grows by the number of
  reconnections.
\<close>

theorem connect_with_retry_backoff:
  assumes "connect_with_retry loads envs s = (r, tr, s')"
  shows "connects tr \<le> nat (max_retries s + 1)
       \<and> sleeps tr = backoff_delays (backoff_base s) (backoff_multiplier s) (backoff_max s)
                       (connects tr - 1)
       \<and> reconnect_count s' = reconnect_count s + int (connects tr - 1)
       \<and> (r = Inr False \<longrightarrow> connects tr = nat (max_retries s + 1))
       \<and> (backoff_base s = 1 \<and> backoff_multiplier s = 2 \<and> backoff_max s = 10 \<longrightarrow>
            (\<forall>i < length (sleeps tr). sleeps tr ! i = min (2 ^ i) 10))"
proof -
  let ?n = "nat (max_retries s + 1)"
  let ?tr0 = "\<lparr>sleeps = [], connects = 0\<rparr>"
  have main: "connects tr \<le> ?n
       \<and> sleeps tr = backoff_delays (backoff_base s) (backoff_multiplier s) (backoff_max s)
                       (connects tr - 1)
       \<and> reconnect_count s' = reconnect_count s + int (connects tr - 1)
       \<and> (r = Inr False \<longrightarrow> connects tr = ?n)"
  proof (cases ?n)
    case 0
    with assms show ?thesis by (auto simp: connect_with_retry_def)
  next
    case (Suc m)
    then have upt: "[0 ..< ?n] = 0 # [1 ..< Suc m]" by (simp add: upt_rec)
    obtain c s2 where c: "sse_connect loads None (envs 0) s = (c, s2)"
      by (cases "sse_connect loads None (envs 0) s")
    have fr: "backoff_multiplier s2 = backoff_multiplier s" "backoff_max s2 = backoff_max s"
      "reconnect_count s2 = reconnect_count s"
      using sse_connect_frame [of loads None "envs 0" s] c by simp_all
    show ?thesis
    proof (cases "c = Inr False")
      case True
      with assms upt c have loop: "retry_loop loads envs [1 ..< Suc m] (backoff_base s)
          (?tr0\<lparr>connects := 1\<rparr>) s2 = (r, tr, s')"
        by (simp add: connect_with_retry_def)
      have "list_all (\<lambda>a. 0 < a) [1 ..< Suc m]" by (auto simp: list_all_iff)
      from retry_loop_trace [OF this loop] obtain k where k: "k \<le> length [1 ..< Suc m]"
        "sleeps tr = backoff_delays (backoff_base s) (backoff_multiplier s2) (backoff_max s2) k"
        "connects tr = 1 + k" "reconnect_count s' = reconnect_count s2 + int k"
        "r = Inr False \<longrightarrow> k = length [1 ..< Suc m]" by auto
      from k(1) have "k \<le> m" by (simp del: upt_Suc)
      moreover from k(5) have "r = Inr False \<longrightarrow> k = m" by (simp del: upt_Suc)
      ultimately show ?thesis using k(2,3,4) fr Suc by simp
    next
      case False
      with assms upt c have "r = c \<and> tr = ?tr0\<lparr>connects := 1\<rparr> \<and> s' = s2"
        by (cases c) (auto simp: connect_with_retry_def split: bool.splits)
      with False fr Suc show ?thesis by simp
    qed
  qed
  moreover have "\<forall>i < length (sleeps tr). sleeps tr ! i = min (2 ^ i) 10"
    if "backoff_base s = 1 \<and> backoff_multiplier s = 2 \<and> backoff_max s = 10"
    using main that backoff_delays_doubling [of 1] by simp
  ultimately show ?thesis by blast
qed


lemma refused_connect:
  "\<not> is_connected s \<Longrightarrow> \<not> on_error s \<Longrightarrow>
     sse_connect loads None refused s
       = (Inr False, sse_close (s\<lparr>session := True, event_source := True\<rparr>))"
  by (simp add: refused_def sse_connect_def connect_failed_def)

text \<open>
  C7 as stated fails: with \<open>max_retries = 1\<close> and every connection refused, \<open>connect\<close> is
  called twice, more than the configured number.
\<close>

theorem connect_with_retry_attempts_counterexample:
  "\<not> int (connects (fst (snd (connect_with_retry not_json (\<lambda>_. refused)
        (ReconnectingSSEClient_init (default_config ''k'') 1 1 10 2)))))
      \<le> max_retries (ReconnectingSSEClient_init (default_config ''k'') 1 1 10 2)"
  by (simp add: connect_with_retry_def ReconnectingSSEClient_init_def refused_connect
      sse_close_def upt_conv_Cons)

lemma all_refused_run:
  "connect_with_retry not_json (\<lambda>_. refused)
      (ReconnectingSSEClient_init (default_config ''k'') 6 1 10 2)
   = (Inr False, \<lparr>sleeps = [1, 2, 4, 8, 10, 10], connects = 7\<rparr>,
      (ReconnectingSSEClient_init (default_config ''k'') 6 1 10 2)\<lparr>reconnect_count := 6\<rparr>)"
  by (simp add: connect_with_retry_def ReconnectingSSEClient_init_def refused_connect
      sse_close_def upt_conv_Cons)

text \<open>
  C7, amended, at \<open>max_retries = 6\<close>, base 1, cap 10, multiplier 2, every connection
  refused: seven calls of \<open>connect\<close>, and the delays 1, 2, 4, 8, 10, 10.
\<close>

theorem connect_with_retry_backoff_witness:
  "connects (fst (snd (connect_with_retry not_json (\<lambda>_. refused)
      (ReconnectingSSEClient_init (default_config ''k'') 6 1 10 2)))) = 7
   \<and> sleeps (fst (snd (connect_with_retry not_json (\<lambda>_. refused)
      (ReconnectingSSEClient_init (default_config ''k'') 6 1 10 2)))) = [1, 2, 4, 8, 10, 10]"
  using connect_with_retry_backoff [OF all_refused_run]
  by (simp add: all_refused_run)


section \<open>Properties of the protocol client\<close>

subsection \<open>Waiting for a response\<close>

text \<open>
  What the loop does when it returns a response: the response matches, the responses
  taken before it did not, and they are put back behind the rest of the queue in the
  order in which they were taken. A response that was on the queue before the call is
  found like one that arrives during it.
\<close>

lemma wait_loop_returns_in_order:
  assumes "wait_loop rid tmo start p ts q = Some (Inr r, q')"
  shows "(rid = None \<or> resp_id r = rid)
       \<and> (\<exists>skipped rest n. n \<le> length ts
            \<and> q @ concat (map arrivals (take n ts)) = skipped @ r # rest
            \<and> list_all (\<lambda>x. rid \<noteq> None \<and> resp_id x \<noteq> rid) skipped
            \<and> q' = rest @ p @ skipped)"
  using assms
proof (induction ts arbitrary: p q)
  case Nil
  then show ?case by simp
next
  case (Cons t ts)
  show ?case
  proof (cases t)
    case Cancel
    with Cons.prems show ?thesis by simp
  next
    case (Tick now arrived)
    with Cons.prems have live: "\<not> tmo - (now - start) \<le> 0"
      by (auto split: if_splits)
    with Cons.prems Tick obtain x q1 where q1: "q @ arrived = x # q1"
      by (cases "q @ arrived") auto
    show ?thesis
    proof (cases "rid = None \<or> resp_id x = rid")
      case True
      with Cons.prems Tick live q1 have "r = x" "q' = q1 @ p" by auto
      with True q1 Tick show ?thesis
        by (intro conjI exI [of _ "[]"] exI [of _ q1] exI [of _ "Suc 0"]) auto
    next
      case False
      with Cons.prems Tick live q1
      have "wait_loop rid tmo start (p @ [x]) ts q1 = Some (Inr r, q')" by auto
      from Cons.IH [OF this] obtain skipped rest n where ih: "rid = None \<or> resp_id r = rid"
        "n \<le> length ts" "q1 @ concat (map arrivals (take n ts)) = skipped @ r # rest"
        "list_all (\<lambda>x. rid \<noteq> None \<and> resp_id x \<noteq> rid) skipped"
        "q' = rest @ (p @ [x]) @ skipped" by blast
      have "q @ concat (map arrivals (take (Suc n) (t # ts))) = (x # skipped) @ r # rest"
      proof -
        have "q @ concat (map arrivals (take (Suc n) (t # ts)))
            = (q @ arrived) @ concat (map arrivals (take n ts))"
          using Tick by simp
        also have "\<dots> = x # (q1 @ concat (map arrivals (take n ts)))"
          by (simp only: q1 append_Cons)
        finally show ?thesis using ih(3) by simp
      qed
      with ih False show ?thesis
        by (intro conjI exI [of _ "x # skipped"] exI [of _ rest] exI [of _ "Suc n"]) auto
    qed
  qed
qed

text \<open>
  C1. The claim holds on the handler of \<open>wait_for\<close>'s timeout and fails at the deadline
  check at the top of the loop, which raises without putting the set-aside responses back.
  A response with id 2 arrives while the caller waits for id 1 with a timeout of 30
  seconds. When the next clock reading is 30 seconds after the start, the call raises
  \<open>TimeoutError\<close> and the queue is empty: the response is lost. When the reading is 29
  seconds and nothing more arrives, \<open>wait_for\<close> times out and the response is back on
  the queue.
\<close>

theorem wait_drops_pending_at_deadline_check:
  "wait_for_sse_response (Some (IntId 1)) 30 0 [Tick 0 [result_response 2], Tick 30 []]
      (MCPClient_init (default_config ''k'') 30)
    = Some (Inl (TimeoutError ''Timeout waiting for response to request 1''),
            (MCPClient_init (default_config ''k'') 30)\<lparr>response_queue := []\<rparr>)
   \<and> wait_for_sse_response (Some (IntId 1)) 30 0 [Tick 0 [result_response 2], Tick 29 []]
      (MCPClient_init (default_config ''k'') 30)
    = Some (Inl (TimeoutError ''Timeout waiting for response to request 1''),
            (MCPClient_init (default_config ''k'') 30)\<lparr>response_queue := [result_response 2]\<rparr>)"
  by (simp add: wait_for_sse_response_def MCPClient_init_def result_response_def
      timeout_message_def str_int_def str_nat.simps digit_char_def)

subsection \<open>How the response is delivered\<close>

lemma all_dropWhile: "(\<forall>x\<in>set (dropWhile P xs). P x) = (\<forall>x\<in>set xs. P x)"
  by (induction xs) auto

lemma strip_empty_iff: "(s = [] \<or> strip s = []) = list_all is_space s"
  by (auto simp: strip_def dropWhile_eq_Nil_conv all_dropWhile list_all_iff)

text \<open>
  C3, amended. When the POST returns status 200 or 202, the status and the body decide how
  the response is delivered. With status 202, or with a body that is empty or holds only
  whitespace, \<open>_send_request\<close> waits for the response on the queue, with the default
  timeout of 30 seconds. With status 200 and a body that holds a character other than
  whitespace, the body is decoded and the result of decoding (the response, or the error
  decoding raises) is the result; the queue is not touched.
\<close>

theorem send_request_delivery_mode:
  assumes "sse_client st = Some sse"
    and "post env (request_endpoint st sse) request = PostReturns status body"
    and "status = 200 \<or> status = 202"
  shows "send_request lib request env st =
     (if status = 202 \<or> list_all is_space body
      then wait_for_sse_response (req_id request) 30 (wait_start env) (ticks env)
             (st\<lparr>http_client := True\<rparr>)
      else Some (decode_response lib body, st\<lparr>http_client := True\<rparr>))"
  using assms strip_empty_iff [of body]
  by (auto simp: send_request_def raise_for_status_def)

text \<open>The definitions an example unfolds.\<close>

lemmas ev_simps = send_request_def raise_for_status_def connected_client_def connected_sse_def
  replies_def MCPClient_init_def SSEClient_init_def request_endpoint_def message_endpoint_def
  default_config_def wait_for_sse_response_def result_response_def list_tools_request_def
  strip_def is_space_def decode_response_def example_lib_def example_loads_def
  MCPResponse_of_def example_validate_def example_error_def timeout_message_def

text \<open>
  C3 as stated fails: the POST returns status 200 with a body of one space, which is not
  empty. The body is not decoded (decoding it would raise); the response is the one the
  listener puts on the queue.
\<close>

theorem send_request_blank_body_counterexample:
  "send_request example_lib (list_tools_request (IntId 2))
      (replies 200 '' '' [Tick 1 [result_response 2]]) connected_client
    = Some (Inr (result_response 2), connected_client)
   \<and> decode_response example_lib '' '' = Inl (JSONDecodeError ''Expecting value'')"
  by (simp add: ev_simps)

text \<open>
  C3, amended, at a connected client: status 200 with a JSON body gives the decoded body,
  status 202 gives the response from the queue.
\<close>

theorem send_request_delivery_mode_witness:
  \<open>send_request example_lib (list_tools_request (IntId 2))
      (replies 200 ''{"id":2,"result":{"tools":[]}}'' []) connected_client
    = Some (Inr \<lparr>resp_jsonrpc = ''2.0'', resp_result = Some (JObj [(''tools'', JArr [])]),
                 resp_error = None, resp_id = Some (IntId 2)\<rparr>, connected_client)
   \<and> send_request example_lib (list_tools_request (IntId 2))
      (replies 202 [] [Tick 1 [result_response 2]]) connected_client
    = Some (Inr (result_response 2), connected_client)\<close>
  using send_request_delivery_mode
      [of connected_client connected_sse \<open>replies 200 ''{"id":2,"result":{"tools":[]}}'' []\<close>
          "list_tools_request (IntId 2)" 200 \<open>''{"id":2,"result":{"tools":[]}}''\<close> example_lib]
    send_request_delivery_mode
      [of connected_client connected_sse "replies 202 [] [Tick 1 [result_response 2]]"
          "list_tools_request (IntId 2)" 202 "[]" example_lib]
  by (simp add: ev_simps)

subsection \<open>Calling a tool\<close>

text \<open>The request completes, and what it raises.\<close>

lemma wait_loop_complete:
  "list_ex (ends_wait tmo start) ts \<Longrightarrow> wait_loop rid tmo start p ts q \<noteq> None"
proof (induction ts arbitrary: p q)
  case Nil
  then show ?case by simp
next
  case (Cons t ts)
  show ?case
  proof (cases t)
    case Cancel
    then show ?thesis by simp
  next
    case (Tick now arrived)
    show ?thesis
    proof (cases "tmo - (now - start) \<le> 0")
      case True
      with Tick show ?thesis by simp
    next
      case False
      with Cons.prems Tick have "list_ex (ends_wait tmo start) ts" by simp
      from Cons.IH [OF this] False Tick show ?thesis
        by (simp split: list.splits)
    qed
  qed
qed

lemma wait_loop_raises:
  "wait_loop rid tmo start p ts q = Some (Inl e, q') \<Longrightarrow>
     is_TimeoutError e \<or> (e = CancelledError \<and> Cancel \<in> set ts)"
proof (induction ts arbitrary: p q)
  case Nil
  then show ?case by simp
next
  case (Cons t ts)
  then show ?case
    by (cases t) (auto split: if_splits list.splits)
qed

lemma wait_for_sse_response_complete:
  "list_ex (ends_wait tmo start) ts \<Longrightarrow> wait_for_sse_response rid tmo start ts st \<noteq> None"
  using wait_loop_complete [of tmo start ts rid "[]" "response_queue st"]
  by (auto simp: wait_for_sse_response_def)

lemma wait_for_sse_response_raises:
  "wait_for_sse_response rid tmo start ts st = Some (Inl e, st') \<Longrightarrow>
     is_TimeoutError e \<or> (e = CancelledError \<and> Cancel \<in> set ts)"
  by (auto simp: wait_for_sse_response_def split: option.splits dest: wait_loop_raises)

lemma send_request_complete:
  assumes "list_ex (ends_wait 30 (wait_start env)) (ticks env)"
  shows "send_request lib request env st \<noteq> None"
proof -
  have "wait_for_sse_response (req_id request) 30 (wait_start env) (ticks env) st1 \<noteq> None"
    for st1
    using assms by (rule wait_for_sse_response_complete)
  then show ?thesis
    by (simp add: send_request_def Let_def split: option.splits post_outcome.splits)
qed

lemma is_TimeoutError_Exception: "is_TimeoutError e \<Longrightarrow> is_Exception e"
  by (cases e) simp_all

lemma decode_response_raises:
  assumes "\<forall>s e. json_loads lib s = Inl e \<longrightarrow> is_Exception e"
    and "\<forall>kvs e. validate_MCPResponse lib kvs = Inl e \<longrightarrow> is_Exception e"
    and "decode_response lib body = Inl e"
  shows "is_Exception e"
  using assms
  by (auto simp: decode_response_def MCPResponse_of_def split: sum.splits json.splits)

lemma send_request_raises:
  assumes "\<forall>s e. json_loads lib s = Inl e \<longrightarrow> is_Exception e"
    and "\<forall>kvs e. validate_MCPResponse lib kvs = Inl e \<longrightarrow> is_Exception e"
    and "\<forall>url rq. post env url rq \<noteq> PostRaises CancelledError"
    and "Cancel \<notin> set (ticks env)"
    and "send_request lib request env st = Some (Inl e, st')"
  shows "is_Exception e"
proof (cases "sse_client st")
  case None
  with assms(5) show ?thesis by (auto simp: send_request_def)
next
  case (Some sse)
  show ?thesis
  proof (cases "post env (request_endpoint st sse) request")
    case (PostRaises x)
    with assms(3) have "x \<noteq> CancelledError" by metis
    then have "is_Exception x" by (cases x) simp_all
    with assms(5) Some PostRaises show ?thesis by (simp add: send_request_def)
  next
    case (PostReturns status body)
    with assms(5) Some show ?thesis
      using assms(4) decode_response_raises [OF assms(1,2)]
      by (auto simp: send_request_def raise_for_status_def Let_def split: if_splits
          dest!: wait_for_sse_response_raises dest: is_TimeoutError_Exception)
  qed
qed

lemma call_tool_failed_Exception:
  "is_Exception e \<Longrightarrow>
     call_tool_failed lib name tmo d e =
       Inr \<lparr>tool_name = name, success = False, tcr_result = None,
            tcr_error = Some (if is_TimeoutError e then ''Timeout after '' @ str_timeout lib tmo @ ''s''
                              else str_exn e),
            duration_ms = d, response_size_bytes = 0\<rparr>"
  by (simp add: call_tool_failed_def)

lemma get_tool_result_raises:
  "\<forall>kvs e. validate_MCPToolResult lib kvs = Inl e \<longrightarrow> is_Exception e \<Longrightarrow>
     get_tool_result lib response = Inl e \<Longrightarrow> is_Exception e"
  by (auto simp: get_tool_result_def split: option.splits json.splits if_splits sum.splits)

lemma tool_call_result_returns:
  assumes "\<forall>kvs e. validate_MCPToolResult lib kvs = Inl e \<longrightarrow> is_Exception e"
  shows "\<exists>res. tool_call_result lib name tmo d response = Inr res \<and> tool_name res = name
     \<and> (\<forall>err. resp_error response = Some err \<longrightarrow>
            \<not> success res \<and> tcr_error res = Some (str_MCPError lib err))"
proof (cases "resp_error response")
  case (Some err)
  then show ?thesis by (simp add: tool_call_result_def)
next
  case None
  show ?thesis
  proof (cases "get_tool_result lib response")
    case (Inl e)
    with get_tool_result_raises [OF assms] have "is_Exception e" by blast
    with None Inl show ?thesis
      by (simp add: tool_call_result_def call_tool_failed_Exception)
  next
    case (Inr t)
    with None show ?thesis by (simp add: tool_call_result_def)
  qed
qed

text \<open>The text of an error object holds the message when \<open>repr\<close> copies it unchanged.\<close>

lemma concat_verbatim: "list_all (\<lambda>c. f c = [c]) s \<Longrightarrow> concat (map f s) = s"
  by (induction s) simp_all

lemma py_repr_verbatim: "repr_verbatim s \<Longrightarrow> py_repr s = repr_quote s # s @ [repr_quote s]"
  by (simp add: py_repr_def repr_verbatim_def concat_verbatim)

lemma str_MCPError_contains:
  assumes "repr_verbatim (err_message e)"
  shows "sublist (err_message e) (str_MCPError lib e)"
proof -
  let ?q = "repr_quote (err_message e)"
  have "str_MCPError lib e =
      (''code='' @ str_int (err_code e) @ '' message='' @ [?q]) @ err_message e
        @ (?q # '' data='' @ (case err_data e of None \<Rightarrow> ''None'' | Some v \<Rightarrow> repr_any lib v))"
    by (simp add: str_MCPError_def py_repr_verbatim [OF assms])
  then show ?thesis by (metis sublist_appendI)
qed

text \<open>
  C2 as stated fails: the server's message is \<open>not\<close>, a newline, \<open>found\<close>. The error
  text of the result is \<open>str\<close> of the error object, in which \<open>repr\<close> writes the newline
  as a backslash and \<open>n\<close>: the text does not contain the message.
\<close>

theorem call_tool_escaped_message_counterexample:
  "map_option fst (call_tool example_lib ''nonExistentTool'' None None
      (tool_env 202 [] [Tick 1 [newline_error]]) connected_client)
    = Some (Inr \<lparr>tool_name = ''nonExistentTool'', success = False, tcr_result = None,
        tcr_error = Some (''code=-32601 message='' @ [CHR 0x27] @ ''not'' @ [CHR 0x5C]
                            @ ''nfound'' @ [CHR 0x27] @ '' data=None''),
        duration_ms = 500, response_size_bytes = 0\<rparr>)
   \<and> \<not> sublist (''not'' @ [CHR 0x0A] @ ''found'')
        (''code=-32601 message='' @ [CHR 0x27] @ ''not'' @ [CHR 0x5C] @ ''nfound'' @ [CHR 0x27]
           @ '' data=None'')"
  by (simp add: call_tool_def tool_call_result_def tool_env_def newline_error_def
      send_request_def raise_for_status_def connected_client_def connected_sse_def
      MCPClient_init_def SSEClient_init_def request_endpoint_def message_endpoint_def
      default_config_def wait_for_sse_response_def tool_call_def
      str_MCPError_def py_repr_def repr_quote_def repr_char_def printable_def
      str_int_def str_nat.simps digit_char_def sublist_code)

text \<open>
  C2, amended. Let the libraries raise only exceptions derived from \<open>Exception\<close>, let the
  clock reach the deadline of the wait, and let no cancellation come from outside the call
  (the only cancellation is the one the timer of \<open>asyncio.timeout\<close> causes). Then
  \<open>_send_request\<close> completes and \<open>call_tool\<close> returns a \<open>ToolCallResult\<close> for the tool,
  never an exception. For a response with a JSON-RPC error, \<open>success\<close> is false and the
  error text is \<open>str\<close> of the server's error object,
  \<open>code=... message=repr(message) data=...\<close>; it contains the server's message whenever
  \<open>repr\<close> copies the message unchanged (no backslash, no control or other unprintable
  character, not both kinds of quote). For a timeout, \<open>success\<close> is false
  and the text is \<open>Timeout after ...s\<close>; for any other exception, \<open>success\<close> is false and
  the text is \<open>str\<close> of the exception.
\<close>

theorem call_tool_returns_result:
  assumes loads: "\<forall>s e. json_loads lib s = Inl e \<longrightarrow> is_Exception e"
    and response: "\<forall>kvs e. validate_MCPResponse lib kvs = Inl e \<longrightarrow> is_Exception e"
    and tool_result: "\<forall>kvs e. validate_MCPToolResult lib kvs = Inl e \<longrightarrow> is_Exception e"
    and deadline: "list_ex (ends_wait 30 (wait_start env)) (ticks env)"
    and cancel: "(timer_expired env \<and> tmo \<noteq> None \<and> tmo \<noteq> Some 0)
       \<or> ((\<forall>url rq. post env url rq \<noteq> PostRaises CancelledError) \<and> Cancel \<notin> set (ticks env))"
  shows "case send_request lib
             (tool_call name (JObj (case arguments of None \<Rightarrow> [] | Some a \<Rightarrow> a))
                (IntId (request_id st + 1)))
             env (st\<lparr>request_id := request_id st + 1\<rparr>) of
           None \<Rightarrow> False
         | Some (sent, st2) \<Rightarrow>
             (\<exists>res. call_tool lib name arguments tmo env st = Some (Inr res, st2)
                \<and> tool_name res = name
                \<and> (case sent of
                      Inr response \<Rightarrow>
                        (case resp_error response of
                           None \<Rightarrow> True
                         | Some err \<Rightarrow>
                             \<not> success res \<and> tcr_error res = Some (str_MCPError lib err)
                             \<and> (repr_verbatim (err_message err) \<longrightarrow>
                                  (\<exists>t. tcr_error res = Some t \<and> sublist (err_message err) t)))
                    | Inl e \<Rightarrow>
                        \<not> success res
                        \<and> tcr_error res =
                            Some (if is_TimeoutError e \<or> e = CancelledError
                                  then ''Timeout after '' @ str_timeout lib tmo @ ''s''
                                  else str_exn e)))"
proof -
  let ?st1 = "st\<lparr>request_id := request_id st + 1\<rparr>"
  let ?rq = "tool_call name (JObj (case arguments of None \<Rightarrow> [] | Some a \<Rightarrow> a))
                (IntId (request_id st + 1))"
  let ?d = "(call_finished env - call_started env) * 1000"
  from send_request_complete [OF deadline, of lib ?rq ?st1]
  obtain sent st2 where sent: "send_request lib ?rq env ?st1 = Some (sent, st2)" by auto
  show ?thesis
  proof (cases sent)
    case (Inr r)
    from tool_call_result_returns [OF tool_result, of name tmo ?d r]
    obtain res where res: "tool_call_result lib name tmo ?d r = Inr res" "tool_name res = name"
      "\<forall>err. resp_error r = Some err \<longrightarrow>
         \<not> success res \<and> tcr_error res = Some (str_MCPError lib err)" by blast
    have "call_tool lib name arguments tmo env st = Some (Inr res, st2)"
      using sent Inr res(1) by (simp add: call_tool_def Let_def asyncio_timeout_def)
    with sent Inr res(2,3) show ?thesis
      by (auto split: option.splits intro: str_MCPError_contains)
  next
    case (Inl e)
    let ?e' = "if e = CancelledError then TimeoutError [] else e"
    let ?res = "\<lparr>tool_name = name, success = False, tcr_result = None,
                 tcr_error = Some (if is_TimeoutError e \<or> e = CancelledError
                                   then ''Timeout after '' @ str_timeout lib tmo @ ''s''
                                   else str_exn e),
                 duration_ms = ?d, response_size_bytes = 0\<rparr>"
    have "call_tool lib name arguments tmo env st = Some (Inr ?res, st2)"
      using cancel
    proof
      assume timer: "timer_expired env \<and> tmo \<noteq> None \<and> tmo \<noteq> Some 0"
      have "is_Exception ?e'" by (cases e) simp_all
      from call_tool_failed_Exception [OF this, of lib name tmo ?d] timer sent Inl
      show ?thesis
        by (cases e) (simp_all add: call_tool_def Let_def asyncio_timeout_def)
    next
      assume quiet: "(\<forall>url rq. post env url rq \<noteq> PostRaises CancelledError)
        \<and> Cancel \<notin> set (ticks env)"
      with send_request_raises [OF loads response _ _ sent [unfolded Inl]]
      have ex: "is_Exception e" by blast
      then have "e \<noteq> CancelledError" by auto
      with call_tool_failed_Exception [OF ex, of lib name tmo ?d] sent Inl
      show ?thesis
        by (simp add: call_tool_def Let_def asyncio_timeout_def)
    qed
    with sent Inl show ?thesis by simp
  qed
qed

lemma example_lib_raises:
  "\<forall>s e. json_loads example_lib s = Inl e \<longrightarrow> is_Exception e"
  "\<forall>kvs e. validate_MCPResponse example_lib kvs = Inl e \<longrightarrow> is_Exception e"
  "\<forall>kvs e. validate_MCPToolResult example_lib kvs = Inl e \<longrightarrow> is_Exception e"
  by (auto simp: example_lib_def example_loads_def example_validate_def)

lemma error_call:
  \<open>send_request example_lib (tool_call ''nonExistentTool'' (JObj []) (IntId 3))
     (tool_env 200 ''{"id":3,"error":{"code":-32601,"message":"not found"}}'' [Tick 30 []])
     (connected_client\<lparr>request_id := 3\<rparr>)
   = Some (Inr \<lparr>resp_jsonrpc = ''2.0'', resp_result = None,
       resp_error = Some \<lparr>err_code = - 32601, err_message = ''not found'', err_data = None\<rparr>,
       resp_id = Some (IntId 3)\<rparr>, connected_client\<lparr>request_id := 3\<rparr>)\<close>
  by (simp add: ev_simps tool_env_def tool_call_def)

lemma tool_env_sel:
  "post (tool_env status body ts) = (\<lambda>url request. PostReturns status body)"
  "wait_start (tool_env status body ts) = 0"
  "ticks (tool_env status body ts) = ts"
  "call_started (tool_env status body ts) = 0"
  "call_finished (tool_env status body ts) = 1 / 2"
  "timer_expired (tool_env status body ts) = False"
  by (simp_all add: tool_env_def)

text \<open>
  C2, amended, at the error response
  \<open>{"id":3,"error":{"code":-32601,"message":"not found"}}\<close>: the result has
  \<open>success = False\<close> and an error text that contains \<open>not found\<close>, a message that
  \<open>repr\<close> copies unchanged.
\<close>

theorem call_tool_returns_result_witness:
  \<open>map_option fst (call_tool example_lib ''nonExistentTool'' None None
      (tool_env 200 ''{"id":3,"error":{"code":-32601,"message":"not found"}}'' [Tick 30 []])
      (connected_client\<lparr>request_id := 2\<rparr>))
    = Some (Inr \<lparr>tool_name = ''nonExistentTool'', success = False, tcr_result = None,
        tcr_error = Some (''code=-32601 message='' @ [CHR 0x27] @ ''not found'' @ [CHR 0x27]
                            @ '' data=None''),
        duration_ms = 500, response_size_bytes = 0\<rparr>)
   \<and> repr_verbatim ''not found''
   \<and> sublist ''not found''
        (''code=-32601 message='' @ [CHR 0x27] @ ''not found'' @ [CHR 0x27] @ '' data=None'')\<close>
  using call_tool_returns_result [OF example_lib_raises, of
      \<open>tool_env 200 ''{"id":3,"error":{"code":-32601,"message":"not found"}}'' [Tick 30 []]\<close>
      None "''nonExistentTool''" None \<open>connected_client\<lparr>request_id := 2\<rparr>\<close>]
  by (simp add: error_call call_tool_def tool_call_result_def str_MCPError_def py_repr_def
      repr_verbatim_def repr_quote_def repr_char_def printable_def str_int_def str_nat.simps
      digit_char_def tool_env_sel sublist_code)

subsection \<open>Listing the tools\<close>

text \<open>
  C6, amended. \<open>list_tools\<close> converts no failure: when the cache is not used, whatever
  \<open>_send_request\<close> raises (a transport error, an HTTP error status, a timeout) is raised
  to the caller unchanged, a JSON-RPC error response is raised as the \<open>RuntimeError\<close>
  \<open>List tools failed: ...\<close>, and an error of decoding the result is raised too. The tool
  list is returned (and cached) only for a response without error.
\<close>

theorem list_tools_raises:
  assumes "\<not> use_cache \<or> tools_cache st = None"
  shows "case send_request lib (list_tools_request (IntId (request_id st + 1))) env
               (st\<lparr>request_id := request_id st + 1\<rparr>) of
           None \<Rightarrow> list_tools lib use_cache env st = None
         | Some (Inl e, st2) \<Rightarrow> list_tools lib use_cache env st = Some (Inl e, st2)
         | Some (Inr response, st2) \<Rightarrow>
             (case resp_error response of
                Some err \<Rightarrow>
                  list_tools lib use_cache env st =
                    Some (Inl (RuntimeError (''List tools failed: '' @ str_MCPError lib err)), st2)
              | None \<Rightarrow>
                  (case resp_result response of
                     None \<Rightarrow> list_tools lib use_cache env st = Some (Inr [], st2)
                   | Some v \<Rightarrow>
                       if truthy v then
                         (case ToolsListResult_of lib v of
                            Inl e \<Rightarrow> list_tools lib use_cache env st = Some (Inl e, st2)
                          | Inr tools \<Rightarrow>
                              list_tools lib use_cache env st =
                                Some (Inr tools, st2\<lparr>tools_cache := Some tools\<rparr>))
                       else list_tools lib use_cache env st = Some (Inr [], st2)))"
  using assms
  by (auto simp: list_tools_def Let_def split: option.splits sum.splits)

lemma error_list:
  \<open>send_request example_lib (list_tools_request (IntId 2))
     (replies 200 ''{"id":3,"error":{"code":-32601,"message":"not found"}}'' [])
     (connected_client\<lparr>request_id := 2\<rparr>)
   = Some (Inr \<lparr>resp_jsonrpc = ''2.0'', resp_result = None,
       resp_error = Some \<lparr>err_code = - 32601, err_message = ''not found'', err_data = None\<rparr>,
       resp_id = Some (IntId 3)\<rparr>, connected_client\<lparr>request_id := 2\<rparr>)\<close>
  by (simp add: ev_simps)

lemma server_error_list:
  "send_request example_lib (list_tools_request (IntId 2)) (replies 500 [] [])
     (connected_client\<lparr>request_id := 2\<rparr>)
   = Some (Inl (HTTPStatusError ''status 500'' 500 []), connected_client\<lparr>request_id := 2\<rparr>)"
  by (simp add: ev_simps str_nat.simps digit_char_def)

lemma replies_sel:
  "post (replies status body ts) = (\<lambda>url request. PostReturns status body)"
  "wait_start (replies status body ts) = 0"
  "ticks (replies status body ts) = ts"
  by (simp_all add: replies_def)

lemma connected_client_sel:
  "tools_cache connected_client = None" "request_id connected_client = 1"
  by (simp_all add: connected_client_def MCPClient_init_def)

text \<open>
  C6 as stated fails: for a JSON-RPC error response to \<open>tools/list\<close>, \<open>list_tools\<close>
  raises a \<open>RuntimeError\<close>.
\<close>

theorem list_tools_error_counterexample:
  \<open>map_option fst (list_tools example_lib True
      (replies 200 ''{"id":3,"error":{"code":-32601,"message":"not found"}}'' [])
      connected_client)
   = Some (Inl (RuntimeError (''List tools failed: code=-32601 message='' @ [CHR 0x27]
        @ ''not found'' @ [CHR 0x27] @ '' data=None'')))\<close>
  by (simp add: list_tools_def connected_client_sel error_list str_MCPError_def
      py_repr_def repr_quote_def repr_char_def printable_def str_int_def str_nat.simps digit_char_def)

text \<open>
  C6, amended, at a JSON-RPC error response and at an HTTP status 500: both are raised.
\<close>

theorem list_tools_raises_witness:
  \<open>list_tools example_lib True
      (replies 200 ''{"id":3,"error":{"code":-32601,"message":"not found"}}'' [])
      connected_client
   = Some (Inl (RuntimeError (''List tools failed: code=-32601 message='' @ [CHR 0x27]
        @ ''not found'' @ [CHR 0x27] @ '' data=None'')), connected_client\<lparr>request_id := 2\<rparr>)
   \<and> list_tools example_lib True (replies 500 [] []) connected_client
   = Some (Inl (HTTPStatusError ''status 500'' 500 []), connected_client\<lparr>request_id := 2\<rparr>)\<close>
  using list_tools_raises [of True connected_client example_lib
      \<open>replies 200 ''{"id":3,"error":{"code":-32601,"message":"not found"}}'' []\<close>]
    list_tools_raises [of True connected_client example_lib "replies 500 [] []"]
  by (simp add: connected_client_sel error_list server_error_list str_MCPError_def
      py_repr_def repr_quote_def repr_char_def printable_def str_int_def str_nat.simps digit_char_def)

subsection \<open>The listener and malformed events\<close>

lemma deposits_append: "deposits lib (xs @ ys) = deposits lib xs @ deposits lib ys"
  by (induction xs) (auto split: sum.splits)

lemma listen_loop_deposits:
  assumes "\<forall>s e. decode_response lib s = Inl e \<longrightarrow> is_Exception e"
  shows "listen_loop lib evs q = (None, q @ deposits lib evs)"
  using assms
  by (induction evs arbitrary: q) (auto split: sum.splits)

text \<open>
  C8. Let decoding raise only exceptions derived from \<open>Exception\<close> (the data is not JSON,
  or is not a response), and let the client have an event source. Then no event ends the
  loop of the listener, and the queue afterwards is the queue before followed by the
  responses of all events that decode, in order. In particular an event whose data does
  not decode is dropped, and the events after it are deposited as if it had not come.
\<close>

theorem listener_survives_malformed_events:
  assumes loads: "\<forall>s e. json_loads lib s = Inl e \<longrightarrow> is_Exception e"
    and response: "\<forall>kvs e. validate_MCPResponse lib kvs = Inl e \<longrightarrow> is_Exception e"
    and sse: "sse_client st = Some sse" and source: "event_source sse"
  shows "fst (listen_loop lib evs (response_queue st)) = None
       \<and> response_queue (listen_for_responses lib evs st) = response_queue st @ deposits lib evs
       \<and> (\<forall>pre bad post x.
            evs = pre @ bad # post \<and> decode_response lib (ev_data bad) = Inl x \<longrightarrow>
              response_queue (listen_for_responses lib evs st)
                = response_queue st @ deposits lib pre @ deposits lib post)"
proof -
  have dec: "\<forall>s e. decode_response lib s = Inl e \<longrightarrow> is_Exception e"
    using decode_response_raises [OF loads response] by blast
  have loop: "listen_loop lib evs (response_queue st) = (None, response_queue st @ deposits lib evs)"
    by (rule listen_loop_deposits [OF dec])
  have q: "response_queue (listen_for_responses lib evs st) = response_queue st @ deposits lib evs"
    using sse source loop by (simp add: listen_for_responses_def)
  have "deposits lib (pre @ bad # post) = deposits lib pre @ deposits lib post"
    if "decode_response lib (ev_data bad) = Inl x" for pre bad post x
    using that by (simp add: deposits_append)
  with loop q show ?thesis by auto
qed

lemma example_decode:
  \<open>decode_response example_lib ''not json'' = Inl (JSONDecodeError ''Expecting value'')\<close>
  \<open>decode_response example_lib ''{"x":1}''
     = Inr \<lparr>resp_jsonrpc = ''2.0'', resp_result = None, resp_error = None, resp_id = None\<rparr>\<close>
  \<open>decode_response example_lib ''{"id":2,"result":{"tools":[]}}''
     = Inr \<lparr>resp_jsonrpc = ''2.0'', resp_result = Some (JObj [(''tools'', JArr [])]),
            resp_error = None, resp_id = Some (IntId 2)\<rparr>\<close>
  by (simp_all add: decode_response_def example_lib_def example_loads_def MCPResponse_of_def
      example_validate_def)

lemma connected_client_sse:
  "sse_client connected_client = Some connected_sse" "event_source connected_sse"
  "response_queue connected_client = []"
  by (simp_all add: connected_client_def connected_sse_def MCPClient_init_def SSEClient_init_def)

text \<open>
  C8, at three events: data that is not JSON, a heartbeat without data, and a response.
  The response is on the queue.
\<close>

theorem listener_survives_malformed_events_witness:
  \<open>response_queue (listen_for_responses example_lib
      [message_event ''not json'', heartbeat,
       message_event ''{"id":2,"result":{"tools":[]}}'']
      connected_client)
    = [\<lparr>resp_jsonrpc = ''2.0'', resp_result = Some (JObj [(''tools'', JArr [])]),
         resp_error = None, resp_id = Some (IntId 2)\<rparr>]\<close>
  using listener_survives_malformed_events
    [OF example_lib_raises(1,2) connected_client_sse(1,2), of
      \<open>[message_event ''not json'', heartbeat,
        message_event ''{"id":2,"result":{"tools":[]}}'']\<close>]
  by (simp add: connected_client_sse example_decode message_event_def heartbeat_def)

subsection \<open>The endpoint event\<close>















subsection \<open>A failed connect\<close>

text \<open>
  C5. The claim holds when the transport fails and fails when \<open>initialize\<close> fails. With
  the stream open and status 500 for the \<open>initialize\<close> request, \<open>connect\<close> returns
  \<open>False\<close>, and the client it leaves holds a connected SSE client with an open event
  source and a running listener task: the handler of \<open>connect\<close> returns without closing
  anything. When the stream cannot be opened, \<open>SSEClient.connect\<close> has closed itself
  and no listener was started.
\<close>

theorem connect_failure_keeps_stream_and_listener:
  "mcp_connect example_lib failing_initialize (MCPClient_init (default_config ''k'') 30)
   = Some (Inr False,
       (MCPClient_init (default_config ''k'') 30)
         \<lparr>sse_client := Some ((SSEClient_init (default_config ''k''))
            \<lparr>session := True, event_source := True, is_connected := True,
             connection_info := Some \<lparr>connected_at = 0, session_id = Some ''abc'',
               ci_message_endpoint = Some ''/mcp/message?sessionId=abc''\<rparr>,
             last_event_time := Some 0\<rparr>),
          http_client := True, request_id := 1, listener_task := Some Running\<rparr>)
   \<and> mcp_connect example_lib failing_transport (MCPClient_init (default_config ''k'') 30)
   = Some (Inr False,
       (MCPClient_init (default_config ''k'') 30)
         \<lparr>sse_client := Some (SSEClient_init (default_config ''k''))\<rparr>)"
  by (simp add: mcp_connect_def failing_initialize_def failing_transport_def refused_def
      MCPClient_init_def SSEClient_init_def
      sse_connect_def connect_failed_def sse_close_def
      endpoint_info_def parse_json_def example_lib_def example_loads_def
      session_key_def sublist_code initialize_def message_endpoint_def default_config_def
      send_request_def request_endpoint_def raise_for_status_def)

end
